theory Spec2Isabelle
  imports Complex_Main
begin

section \<open>Operator execution layer of the hannk interpreter (apps/hannk/interpreter/ops.cpp)\<close>

text \<open>
  The development embeds the helper routines of \<^verbatim>\<open>ops.cpp\<close> that the stated properties are
  about: the fixed-point conversion of a real multiplier, the activation clamp interval,
  dimension fusion and broadcasting of strided buffer views, \<^verbatim>\<open>requantize\<close>, the element-type
  guards of the \<^verbatim>\<open>execute\<close> methods, and the concatenation operator.

  Conventions. A C++ \<^verbatim>\<open>assert\<close>, \<^verbatim>\<open>CHECK\<close> or \<^verbatim>\<open>LOG(FATAL)\<close> that fires is a value
  \<open>Inl e\<close> of the result type \<open>error + 'a\<close>; the text of the failed condition is kept.
  A \<^verbatim>\<open>double\<close> or \<^verbatim>\<open>float\<close> is modelled by the real number it denotes. \<^verbatim>\<open>std::frexp\<close>,
  multiplication by a power of two and \<^verbatim>\<open>std::round\<close> are exact on doubles, so the model of
  \<^verbatim>\<open>get_quantized_mul_and_shift\<close> computes, on every real that is a double, what the code
  computes. A floating-point division rounds its quotient; it is taken as a parameter
  \<open>fdiv\<close> wherever the source divides.
\<close>

subsection \<open>Errors\<close>

datatype error =
    Assert_failed string
  | Check_failed string
  | Log_fatal string
  | Undefined_behaviour string
  | Out_of_range string

subsection \<open>Floating-point helpers of the C++ library\<close>

text \<open>\<^verbatim>\<open>std::round\<close>: to the nearest integer, halfway cases away from zero.\<close>

definition cround :: "real \<Rightarrow> int" where
  "cround x = (if 0 \<le> x then \<lfloor>x + 1 / 2\<rfloor> else - \<lfloor>- x + 1 / 2\<rfloor>)"

text \<open>
  \<^verbatim>\<open>std::frexp(x, &e)\<close> returns \<open>q\<close> with \<open>x = q * 2^e\<close> and \<open>1/2 \<le> |q| < 1\<close>, and
  \<open>q = 0\<close>, \<open>e = 0\<close> for \<open>x = 0\<close>. The exponent is found by halving or doubling until the
  magnitude lies in \<open>[1/2, 1)\<close>.
\<close>

function frexp_exp :: "real \<Rightarrow> int" where
  "frexp_exp x =
     (if x = 0 then 0
      else if 1 \<le> \<bar>x\<bar> then frexp_exp (x / 2) + 1
      else if \<bar>x\<bar> < 1 / 2 then frexp_exp (x * 2) - 1
      else 0)"
  by pat_completeness auto
termination
proof (relation "measure (\<lambda>x. 3 * nat \<lfloor>\<bar>x\<bar>\<rfloor> + nat \<lfloor>1 / \<bar>x\<bar>\<rfloor>)")
  show "wf (measure (\<lambda>x::real. 3 * nat \<lfloor>\<bar>x\<bar>\<rfloor> + nat \<lfloor>1 / \<bar>x\<bar>\<rfloor>))"
    by (rule wf_measure)
next
  fix x :: real
  assume nz: "x \<noteq> 0" and ge: "1 \<le> \<bar>x\<bar>"
  have eq1: "\<bar>x / 2\<bar> = \<bar>x\<bar> / 2" by simp
  have e0: "1 \<le> \<lfloor>\<bar>x\<bar>\<rfloor>" using ge by linarith
  have "\<bar>x\<bar> < of_int \<lfloor>\<bar>x\<bar>\<rfloor> + 1" by linarith
  moreover have "(1::real) \<le> of_int \<lfloor>\<bar>x\<bar>\<rfloor>" using e0 by linarith
  ultimately have "\<bar>x\<bar> / 2 < of_int \<lfloor>\<bar>x\<bar>\<rfloor>" by linarith
  then have a: "\<lfloor>\<bar>x / 2\<bar>\<rfloor> < \<lfloor>\<bar>x\<bar>\<rfloor>" unfolding eq1 by (simp only: floor_less_iff)
  have "1 / \<bar>x / 2\<bar> \<le> 2" using ge by (simp add: field_simps)
  then have b: "\<lfloor>1 / \<bar>x / 2\<bar>\<rfloor> \<le> 2" by linarith
  have d: "0 \<le> \<lfloor>\<bar>x / 2\<bar>\<rfloor>" by simp
  have a': "nat \<lfloor>\<bar>x / 2\<bar>\<rfloor> < nat \<lfloor>\<bar>x\<bar>\<rfloor>" using a d by linarith
  have b': "nat \<lfloor>1 / \<bar>x / 2\<bar>\<rfloor> \<le> 2" using b by linarith
  have "3 * nat \<lfloor>\<bar>x / 2\<bar>\<rfloor> + nat \<lfloor>1 / \<bar>x / 2\<bar>\<rfloor> < 3 * nat \<lfloor>\<bar>x\<bar>\<rfloor> + nat \<lfloor>1 / \<bar>x\<bar>\<rfloor>"
    using a' b' by linarith
  then show "(x / 2, x) \<in> measure (\<lambda>x. 3 * nat \<lfloor>\<bar>x\<bar>\<rfloor> + nat \<lfloor>1 / \<bar>x\<bar>\<rfloor>)"
    by (simp only: in_measure)
next
  fix x :: real
  assume nz: "x \<noteq> 0" and nge: "\<not> 1 \<le> \<bar>x\<bar>" and lt2: "\<bar>x\<bar> < 1 / 2"
  have pos: "0 < \<bar>x\<bar>" using nz by simp
  have eq1: "\<bar>x * 2\<bar> = \<bar>x\<bar> * 2" by simp
  have a: "\<lfloor>\<bar>x * 2\<bar>\<rfloor> = 0" unfolding eq1 using lt2 pos by (simp add: floor_eq_iff)
  define y where "y = 1 / \<bar>x\<bar>"
  have big: "2 < y" unfolding y_def using lt2 pos by (simp add: field_simps)
  have h: "1 / \<bar>x * 2\<bar> = y / 2" unfolding y_def by simp
  have e0: "2 \<le> \<lfloor>y\<rfloor>" using big by linarith
  have "y < of_int \<lfloor>y\<rfloor> + 1" by linarith
  moreover have "(2::real) \<le> of_int \<lfloor>y\<rfloor>" using e0 by linarith
  ultimately have "y / 2 < of_int \<lfloor>y\<rfloor>" by linarith
  then have "\<lfloor>y / 2\<rfloor> < \<lfloor>y\<rfloor>" by (simp only: floor_less_iff)
  then have b: "\<lfloor>1 / \<bar>x * 2\<bar>\<rfloor> < \<lfloor>1 / \<bar>x\<bar>\<rfloor>" unfolding h unfolding y_def .
  have a': "nat \<lfloor>\<bar>x * 2\<bar>\<rfloor> = 0" using a by simp
  have c: "0 \<le> \<lfloor>1 / \<bar>x * 2\<bar>\<rfloor>" by simp
  have b': "nat \<lfloor>1 / \<bar>x * 2\<bar>\<rfloor> < nat \<lfloor>1 / \<bar>x\<bar>\<rfloor>" using b c by linarith
  have "3 * nat \<lfloor>\<bar>x * 2\<bar>\<rfloor> + nat \<lfloor>1 / \<bar>x * 2\<bar>\<rfloor> < 3 * nat \<lfloor>\<bar>x\<bar>\<rfloor> + nat \<lfloor>1 / \<bar>x\<bar>\<rfloor>"
    using a' b' by linarith
  then show "(x * 2, x) \<in> measure (\<lambda>x. 3 * nat \<lfloor>\<bar>x\<bar>\<rfloor> + nat \<lfloor>1 / \<bar>x\<bar>\<rfloor>)"
    by (simp only: in_measure)
qed

declare frexp_exp.simps [simp del]

definition frexp :: "real \<Rightarrow> real \<times> int" where
  "frexp x = (x / (2 powi frexp_exp x), frexp_exp x)"

subsection \<open>Integer conversions\<close>

definition INT32_MAX :: int where
  "INT32_MAX = 2147483647"

definition INT32_MIN :: int where
  "INT32_MIN = - 2147483648"

text \<open>
  A value brought into the 32-bit \<^verbatim>\<open>int\<close>: the conversion of a 64-bit value, and the result
  of a 32-bit addition or multiplication, keep the low 32 bits (two's complement).
\<close>

definition int32_wrap :: "int \<Rightarrow> int" where
  "int32_wrap x = (x + 2147483648) mod 4294967296 - 2147483648"

text \<open>
  The cast \<^verbatim>\<open>(int)d\<close> of a double with integral value \<open>r\<close>: undefined when \<open>r\<close> is not
  representable in a 32-bit \<^verbatim>\<open>int\<close>.
\<close>

definition double_to_int :: "int \<Rightarrow> error + int" where
  "double_to_int r =
     (if INT32_MIN \<le> r \<and> r \<le> INT32_MAX then Inr r
      else Inl (Undefined_behaviour ''(int)std::round''))"

subsection \<open>Quantization arithmetic\<close>

record QuantizedMulAndShift =
  multiplier :: int
  shift :: int

text \<open>
  \<^verbatim>\<open>get_quantized_mul_and_shift(double_multiplier, bits = 32)\<close>. The shift
  \<^verbatim>\<open>1LL << (bits - 1)\<close> is defined for \<open>1 \<le> bits \<le> 63\<close>. \<^verbatim>\<open>q_fixed /= 2\<close> is only reached
  with the positive value \<open>2^(bits - 1)\<close>, where truncating and flooring division agree.
\<close>

definition get_quantized_mul_and_shift :: "real \<Rightarrow> int \<Rightarrow> error + QuantizedMulAndShift" where
  "get_quantized_mul_and_shift double_multiplier bits =
     (if double_multiplier = 0 then Inr \<lparr>multiplier = 0, shift = 0\<rparr>
      else if bits < 1 \<or> 63 < bits then Inl (Undefined_behaviour ''1LL << (bits - 1)'')
      else
        let (q, shift0) = frexp double_multiplier;
            one_shl = (2::int) ^ nat (bits - 1);
            q_fixed0 = cround (q * of_int one_shl)
        in if \<not> q_fixed0 \<le> one_shl then Inl (Assert_failed ''q_fixed <= (1LL << (bits - 1))'')
           else
             let (q_fixed1, shift1) =
                   (if q_fixed0 = one_shl then (q_fixed0 div 2, shift0 + 1) else (q_fixed0, shift0))
             in if \<not> q_fixed1 \<le> INT32_MAX
                then Inl (Assert_failed ''q_fixed <= std::numeric_limits<int32_t>::max()'')
                else
                  let (q_fixed2, shift2) =
                        (if shift1 < - (bits - 1) then (0, 0) else (q_fixed1, shift1))
                  in Inr \<lparr>multiplier = int32_wrap q_fixed2, shift = shift2\<rparr>)"

definition get_quantized_mul_and_shift_smaller_than_one ::
    "real \<Rightarrow> int \<Rightarrow> error + QuantizedMulAndShift" where
  "get_quantized_mul_and_shift_smaller_than_one double_multiplier bits =
     (if \<not> (0 \<le> double_multiplier \<and> double_multiplier < 1)
      then Inl (Assert_failed ''double_multiplier >= 0.0 && double_multiplier < 1.0'')
      else case get_quantized_mul_and_shift double_multiplier bits of
             Inl e \<Rightarrow> Inl e
           | Inr result \<Rightarrow>
               (if \<not> shift result \<le> 0 then Inl (Assert_failed ''result.shift <= 0'')
                else Inr result))"

text \<open>
  Finite doubles: \<open>m * 2^e\<close> with a significand of at most 53 bits and an exponent in the
  range of the binary64 format.
\<close>

definition is_double :: "real \<Rightarrow> bool" where
  "is_double x \<longleftrightarrow>
     (\<exists>m e. \<bar>m\<bar> < 2 ^ 53 \<and> - 1074 \<le> e \<and> e \<le> 971 \<and> x = of_int m * 2 powi e)"

subsection \<open>Activation clamp interval\<close>

text \<open>
  Modelled from the spec: the enumeration \<^verbatim>\<open>ActivationFunction\<close> is declared in a header that
  is not among the sources; the spec names the kinds none, ReLU, ReLU6 and ReLU1, which
  are the four the code tests for. \<open>Other_activation\<close> stands for any further enumerator,
  which reaches the final \<^verbatim>\<open>else\<close>. The record \<open>Interval\<close> is the inclusive integer range
  \<open>[min, max]\<close> of the spec.
\<close>

datatype ActivationFunction = None_activation | Relu | Relu6 | ReluN1To1 | Other_activation

record Interval =
  min' :: int
  max' :: int

text \<open>
  \<^verbatim>\<open>get_quantized_min_max(activation, zero_point, scale)\<close>. The three quotients are double
  divisions (\<open>fdiv\<close>); the sums are 32-bit additions, which wrap around.
\<close>

definition get_quantized_min_max ::
    "(real \<Rightarrow> real \<Rightarrow> real) \<Rightarrow> ActivationFunction \<Rightarrow> int \<Rightarrow> real \<Rightarrow> error + Interval" where
  "get_quantized_min_max fdiv activation zero_point scale =
     (case
        (case activation of
           None_activation \<Rightarrow> Inr (0, 255)
         | Relu \<Rightarrow> Inr (zero_point, 255)
         | Relu6 \<Rightarrow>
             (case double_to_int (cround (fdiv 6 scale)) of
                Inl e \<Rightarrow> Inl e
              | Inr r6 \<Rightarrow> Inr (zero_point, int32_wrap (zero_point + r6)))
         | ReluN1To1 \<Rightarrow>
             (case double_to_int (cround (fdiv (- 1) scale)) of
                Inl e \<Rightarrow> Inl e
              | Inr rm \<Rightarrow>
                  (case double_to_int (cround (fdiv 1 scale)) of
                     Inl e \<Rightarrow> Inl e
                   | Inr rp \<Rightarrow>
                       Inr (int32_wrap (zero_point + rm), int32_wrap (zero_point + rp))))
         | Other_activation \<Rightarrow>
             Inl (Check_failed ''Unsupported quantized activation function type.''))
      of
        Inl e \<Rightarrow> Inl e
      | Inr (lo, hi) \<Rightarrow> Inr \<lparr>min' = max lo 0, max' = min hi 255\<rparr>)"

text \<open>
  Modelled from the spec: \<^verbatim>\<open>QuantizationInfo\<close> is declared in a header that is not among the
  sources: one scale and one zero-point per channel, compared field by field.
\<close>

record QuantizationInfo =
  scale :: "real list"
  zero :: "int list"

text \<open>\<^verbatim>\<open>std::vector::at(0)\<close> throws on an empty vector.\<close>

definition at0 :: "'a list \<Rightarrow> error + 'a" where
  "at0 xs = (case xs of [] \<Rightarrow> Inl (Out_of_range ''at(0)'') | x # _ \<Rightarrow> Inr x)"

definition get_output_range ::
    "(real \<Rightarrow> real \<Rightarrow> real) \<Rightarrow> ActivationFunction \<Rightarrow> QuantizationInfo \<Rightarrow> error + Interval" where
  "get_output_range fdiv activation quantization =
     (case at0 (zero quantization) of
        Inl e \<Rightarrow> Inl e
      | Inr output_zero \<Rightarrow>
          if \<not> (0 \<le> output_zero \<and> output_zero \<le> 255)
          then Inl (Assert_failed ''output_zero >= 0 && output_zero <= 255'')
          else
            (case at0 (scale quantization) of
               Inl e \<Rightarrow> Inl e
             | Inr output_scale \<Rightarrow>
                 (case get_quantized_min_max fdiv activation output_zero output_scale of
                    Inl e \<Rightarrow> Inl e
                  | Inr output_range \<Rightarrow>
                      if \<not> (0 \<le> min' output_range \<and> min' output_range \<le> 255)
                      then Inl (Assert_failed ''output_range.min >= 0 && output_range.min <= 255'')
                      else if \<not> (0 \<le> max' output_range \<and> max' output_range \<le> 255)
                      then Inl (Assert_failed ''output_range.max >= 0 && output_range.max <= 255'')
                      else if \<not> min' output_range \<le> max' output_range
                      then Inl (Assert_failed ''output_range.min <= output_range.max'')
                      else Inr output_range)))"

subsection \<open>Strided buffer views\<close>

text \<open>
  Modelled from the spec: \<^verbatim>\<open>HalideBuffer\<close> and \<^verbatim>\<open>halide_dimension_t\<close> belong to the buffer
  runtime, which is not among the sources. A view is a host address, the size of an
  element in bytes and one (min, extent, stride) triple per dimension. The spec's storage
  model is an arena of bytes with begin/end range queries: \<open>begin'\<close> is the address of the
  lowest element of the view and \<open>end'\<close> the address one element past the highest.
  Dimension fields are 32-bit in the source. The products that \<^verbatim>\<open>can_fuse\<close> and \<^verbatim>\<open>fuse\<close>
  form from them are 32-bit products and wrap around (\<open>int32_wrap\<close>): a dense view of
  \<open>65536 * 65536\<close> bytes already has a product of extents of \<open>2^32\<close>.
  Dimension indices are naturals: the source never passes a negative index.
\<close>

record halide_dimension_t =
  dim_min :: int
  extent :: int
  stride :: int

record HalideBuffer =
  host :: int
  type_bytes :: int
  dim :: "halide_dimension_t list"

definition dimensions :: "HalideBuffer \<Rightarrow> nat" where
  "dimensions buf = length (dim buf)"

definition dim_max :: "halide_dimension_t \<Rightarrow> int" where
  "dim_max d = dim_min d + extent d - 1"

definition begin' :: "HalideBuffer \<Rightarrow> int" where
  "begin' buf =
     host buf +
     (\<Sum>d\<leftarrow>dim buf. if stride d < 0 then stride d * (extent d - 1) else 0) * type_bytes buf"

definition end' :: "HalideBuffer \<Rightarrow> int" where
  "end' buf =
     host buf +
     ((\<Sum>d\<leftarrow>dim buf. if 0 < stride d then stride d * (extent d - 1) else 0) + 1) * type_bytes buf"

text \<open>
  Modelled from the spec: \<^verbatim>\<open>translate\<close> moves the coordinates of one dimension and leaves
  the storage where it is; \<^verbatim>\<open>crop\<close> restricts one dimension to \<open>[mn, mn + ex - 1]\<close> and
  moves the host address to the first element kept; \<^verbatim>\<open>embed\<close> at the end appends a dimension
  of extent 1 ("rank padding") whose stride continues the last dimension densely.
\<close>

definition translate :: "HalideBuffer \<Rightarrow> nat \<Rightarrow> int \<Rightarrow> HalideBuffer" where
  "translate buf d dx =
     buf\<lparr>dim := (dim buf)[d := (dim buf ! d)\<lparr>dim_min := dim_min (dim buf ! d) + dx\<rparr>]\<rparr>"

definition crop :: "HalideBuffer \<Rightarrow> nat \<Rightarrow> int \<Rightarrow> int \<Rightarrow> HalideBuffer" where
  "crop buf d mn ex =
     buf\<lparr>host := host buf + (mn - dim_min (dim buf ! d)) * stride (dim buf ! d) * type_bytes buf,
         dim := (dim buf)[d := (dim buf ! d)\<lparr>dim_min := mn, extent := ex\<rparr>]\<rparr>"

definition embed_last :: "HalideBuffer \<Rightarrow> HalideBuffer" where
  "embed_last buf =
     buf\<lparr>dim := dim buf @
        [\<lparr>dim_min = 0, extent = 1,
          stride = (if dim buf = [] then 1
                    else stride (last (dim buf)) * extent (last (dim buf)))\<rparr>]\<rparr>"

subsection \<open>Shape normalizer\<close>

text \<open>\<^verbatim>\<open>can_fuse(buf, d0, d1)\<close>; the conjunction is evaluated left to right in the source.\<close>

definition can_fuse :: "HalideBuffer \<Rightarrow> nat \<Rightarrow> nat \<Rightarrow> error + bool" where
  "can_fuse buf d0 d1 =
     (if \<not> d0 \<noteq> d1 then Inl (Assert_failed ''d0 != d1'')
      else Inr (d0 < dimensions buf \<and>
                d1 < dimensions buf \<and>
                dim_min (dim buf ! d0) = 0 \<and>
                0 < stride (dim buf ! d1) \<and>
                stride (dim buf ! d1) =
                  int32_wrap (extent (dim buf ! d0) * stride (dim buf ! d0))))"

definition can_fuse_cx :: "HalideBuffer \<Rightarrow> error + bool" where
  "can_fuse_cx buf = can_fuse buf 0 1"

definition can_fuse_xy :: "HalideBuffer \<Rightarrow> error + bool" where
  "can_fuse_xy buf = can_fuse buf 1 2"

text \<open>
  \<^verbatim>\<open>fuse(buf, d0, d1)\<close>: the extent of \<open>d0\<close> is multiplied by that of \<open>d1\<close> (\<^verbatim>\<open>dim0.extent *=
  dim1.extent\<close>, a 32-bit product), the loop moves
  every dimension above \<open>d1\<close> one place down, and \<^verbatim>\<open>slice\<close> drops the last dimension at its
  own minimum (no change of the host address). An index outside the buffer is an
  out-of-bounds access of the dimension array.
\<close>

function fuse_shift :: "halide_dimension_t list \<Rightarrow> nat \<Rightarrow> halide_dimension_t list" where
  "fuse_shift ds d = (if d + 1 < length ds then fuse_shift (ds[d := ds ! (d + 1)]) (d + 1) else ds)"
  by pat_completeness auto
termination
  by (relation "measure (\<lambda>(ds, d). length ds - d)") auto

declare fuse_shift.simps [simp del]

definition fuse :: "HalideBuffer \<Rightarrow> nat \<Rightarrow> nat \<Rightarrow> error + HalideBuffer" where
  "fuse buf d0 d1 =
     (if \<not> (d0 < dimensions buf \<and> d1 < dimensions buf)
      then Inl (Undefined_behaviour ''raw_buffer()->dim[d]'')
      else
        let ds = dim buf;
            ds1 = ds[d0 := (ds ! d0)\<lparr>extent := int32_wrap (extent (ds ! d0) * extent (ds ! d1))\<rparr>]
        in Inr (buf\<lparr>dim := butlast (fuse_shift ds1 d1)\<rparr>))"

definition fuse_cx :: "HalideBuffer \<Rightarrow> error + HalideBuffer" where
  "fuse_cx buf = fuse buf 0 1"

definition fuse_xy :: "HalideBuffer \<Rightarrow> error + HalideBuffer" where
  "fuse_xy buf = fuse buf 1 2"

function pad_to_rank :: "HalideBuffer \<Rightarrow> nat \<Rightarrow> HalideBuffer" where
  "pad_to_rank buf rank =
     (if dimensions buf < rank then pad_to_rank (embed_last buf) rank else buf)"
  by pat_completeness auto
termination
  by (relation "measure (\<lambda>(buf, rank). rank - dimensions buf)")
     (auto simp: dimensions_def embed_last_def)

declare pad_to_rank.simps [simp del]

text \<open>
  \<^verbatim>\<open>broadcast_shapes(a, b, rank)\<close>: both views are padded to \<open>rank\<close>, then the loop visits the
  dimensions \<open>0 .. rank - 1\<close> in order and stops at the first \<^verbatim>\<open>LOG(FATAL)\<close>.
\<close>

function broadcast_loop ::
    "HalideBuffer \<Rightarrow> HalideBuffer \<Rightarrow> nat \<Rightarrow> nat \<Rightarrow> error + HalideBuffer \<times> HalideBuffer" where
  "broadcast_loop a b d rank =
     (if d < rank then
        (if extent (dim a ! d) = 1 then
           broadcast_loop
             (a\<lparr>dim := (dim a)[d := (dim a ! d)\<lparr>extent := extent (dim b ! d), stride := 0\<rparr>]\<rparr>)
             b (d + 1) rank
         else if extent (dim b ! d) = 1 then
           broadcast_loop a
             (b\<lparr>dim := (dim b)[d := (dim b ! d)\<lparr>extent := extent (dim a ! d), stride := 0\<rparr>]\<rparr>)
             (d + 1) rank
         else Inl (Log_fatal ''Can't broadcast shapes''))
      else Inr (a, b))"
  by pat_completeness auto
termination
  by (relation "measure (\<lambda>(a, b, d, rank). rank - d)") auto

declare broadcast_loop.simps [simp del]

definition broadcast_shapes ::
    "HalideBuffer \<Rightarrow> HalideBuffer \<Rightarrow> nat \<Rightarrow> error + HalideBuffer \<times> HalideBuffer" where
  "broadcast_shapes a b rank = broadcast_loop (pad_to_rank a rank) (pad_to_rank b rank) 0 rank"

text \<open>\<^verbatim>\<open>is_alias(a, b)\<close>: the byte ranges \<open>[begin, end)\<close> of the two views overlap.\<close>

definition is_alias :: "HalideBuffer \<Rightarrow> HalideBuffer \<Rightarrow> bool" where
  "is_alias a b = (\<not> (begin' a \<ge> end' b \<or> end' a \<le> begin' b))"

text \<open>
  \<^verbatim>\<open>crop_to_union(a, b)\<close> crops both views, dimension by dimension, to the coordinates they
  have in common. The bounds passed to \<^verbatim>\<open>crop\<close> lie inside both views by construction.
\<close>

function crop_to_union_loop ::
    "HalideBuffer \<Rightarrow> HalideBuffer \<Rightarrow> nat \<Rightarrow> HalideBuffer \<times> HalideBuffer" where
  "crop_to_union_loop a b d =
     (if d < dimensions a then
        let mn = max (dim_min (dim a ! d)) (dim_min (dim b ! d));
            mx = min (dim_max (dim a ! d)) (dim_max (dim b ! d))
        in crop_to_union_loop (crop a d mn (mx - mn + 1)) (crop b d mn (mx - mn + 1)) (d + 1)
      else (a, b))"
  by pat_completeness auto
termination
  by (relation "measure (\<lambda>(a, b, d). dimensions a - d)")
     (auto simp: dimensions_def crop_def)

declare crop_to_union_loop.simps [simp del]


subsection \<open>Requantize\<close>

text \<open>
  The numeric kernels and the buffer runtime's \<^verbatim>\<open>copy_from\<close> are external primitives. An
  operator's effect on tensor storage is the sequence of primitive calls it makes; a
  function that makes no call leaves every byte as it was. \<open>Copy_from dst src\<close> is
  \<^verbatim>\<open>dst.copy_from(src)\<close>, and \<open>Add\<close> records a call of the helper \<^verbatim>\<open>add\<close> (the rescaling path
  through the \<^verbatim>\<open>add_uint8_uint8\<close> kernel) with its eight arguments.
\<close>

datatype call =
    Copy_from HalideBuffer HalideBuffer
  | Add HalideBuffer QuantizationInfo HalideBuffer QuantizationInfo int
        HalideBuffer QuantizationInfo ActivationFunction

definition requantize ::
    "HalideBuffer \<Rightarrow> QuantizationInfo \<Rightarrow> HalideBuffer \<Rightarrow> QuantizationInfo \<Rightarrow> call list" where
  "requantize in' inq out outq =
     (if inq = outq then
        (if is_alias in' out then [] else [Copy_from out in'])
      else [Add in' inq in' inq 0 out outq None_activation])"

subsection \<open>Element types and the type guards of execute\<close>

text \<open>
  Modelled from the spec: \<^verbatim>\<open>halide_type_t\<close> belongs to the runtime headers, which are not
  among the sources: a type code, a width in bits and a lane count. The tensors of the
  spec are 8-bit unsigned or 32-bit signed.
\<close>

datatype halide_type_code_t = halide_type_int | halide_type_uint | halide_type_float

record halide_type_t =
  code :: halide_type_code_t
  bits :: nat
  lanes :: nat

definition halide_type_of_uint8_t :: halide_type_t where
  "halide_type_of_uint8_t = \<lparr>code = halide_type_uint, bits = 8, lanes = 1\<rparr>"

definition halide_type_of_int32_t :: halide_type_t where
  "halide_type_of_int32_t = \<lparr>code = halide_type_int, bits = 32, lanes = 1\<rparr>"

definition bytes :: "halide_type_t \<Rightarrow> nat" where
  "bytes t = (bits t + 7) div 8"

text \<open>
  Each \<^verbatim>\<open>execute\<close> tests the element types of its tensors and runs its body in the supported
  case. The body (shape normalisation, fixed-point parameters, kernel call) is the
  parameter \<open>body\<close>: its failures and the calls it makes. A method that returns without a
  call yields \<open>Inr []\<close>.
\<close>

definition BinaryOp_execute ::
    "halide_type_t \<Rightarrow> halide_type_t \<Rightarrow> halide_type_t \<Rightarrow> error + 'c list \<Rightarrow> error + 'c list" where
  "BinaryOp_execute in1_type in2_type out_type body =
     (if in1_type = halide_type_of_uint8_t \<and>
         in2_type = halide_type_of_uint8_t \<and>
         out_type = halide_type_of_uint8_t
      then body
      else Inl (Check_failed ''Unsupported type''))"

definition Conv2DOp_execute ::
    "halide_type_t \<Rightarrow> halide_type_t \<Rightarrow> error + 'c list \<Rightarrow> error + 'c list" where
  "Conv2DOp_execute in_type out_type body =
     (if in_type = halide_type_of_uint8_t \<and> out_type = halide_type_of_uint8_t
      then body
      else Inl (Check_failed ''Unsupported type''))"

definition DepthwiseConv2DOp_execute ::
    "halide_type_t \<Rightarrow> halide_type_t \<Rightarrow> halide_type_t \<Rightarrow> error + 'c list \<Rightarrow> error + 'c list" where
  "DepthwiseConv2DOp_execute in_type filt_type out_type body =
     (if in_type = halide_type_of_uint8_t \<and>
         filt_type = halide_type_of_uint8_t \<and>
         out_type = halide_type_of_uint8_t
      then body
      else Inl (Check_failed ''Unsupported type''))"

definition FullyConnectedOp_execute ::
    "halide_type_t \<Rightarrow> halide_type_t \<Rightarrow> halide_type_t \<Rightarrow> error + 'c list \<Rightarrow> error + 'c list" where
  "FullyConnectedOp_execute in_type filt_type out_type body =
     (if in_type = halide_type_of_uint8_t \<and>
         filt_type = halide_type_of_uint8_t \<and>
         out_type = halide_type_of_uint8_t
      then body
      else Inl (Check_failed ''Unsupported type''))"

definition L2NormalizationOp_execute ::
    "halide_type_t \<Rightarrow> halide_type_t \<Rightarrow> error + 'c list \<Rightarrow> error + 'c list" where
  "L2NormalizationOp_execute in_type out_type body =
     (if in_type = halide_type_of_uint8_t \<and> out_type = halide_type_of_uint8_t
      then body
      else Inl (Check_failed ''Unsupported type''))"

definition PadOp_execute :: "halide_type_t \<Rightarrow> error + 'c list \<Rightarrow> error + 'c list" where
  "PadOp_execute out_type body =
     (if bytes out_type = 1 then body else Inl (Check_failed ''Unsupported type''))"

definition PoolOp_execute ::
    "halide_type_t \<Rightarrow> halide_type_t \<Rightarrow> error + 'c list \<Rightarrow> error + 'c list" where
  "PoolOp_execute in_type out_type body =
     (if in_type = halide_type_of_uint8_t \<and> out_type = halide_type_of_uint8_t
      then body
      else Inl (Check_failed ''Unsupported type''))"

datatype ReductionOp_Operator = Mean | Other_reduction

definition ReductionOp_execute ::
    "ReductionOp_Operator \<Rightarrow> halide_type_t \<Rightarrow> halide_type_t \<Rightarrow> error + 'c list \<Rightarrow> error + 'c list"
    where
  "ReductionOp_execute op in_type out_type body =
     (if in_type = halide_type_of_uint8_t \<and> out_type = halide_type_of_uint8_t
      then (if op = Mean then body else Inr [])
      else Inr [])"

definition SoftmaxOp_execute ::
    "halide_type_t \<Rightarrow> halide_type_t \<Rightarrow> error + 'c list \<Rightarrow> error + 'c list" where
  "SoftmaxOp_execute in_type out_type body =
     (if in_type = halide_type_of_uint8_t \<and> out_type = halide_type_of_uint8_t
      then body
      else Inl (Check_failed ''Unsupported type''))"

definition TileConvFilterOp_execute :: "halide_type_t \<Rightarrow> error + 'c list \<Rightarrow> error + 'c list" where
  "TileConvFilterOp_execute in_type body =
     (if in_type = halide_type_of_uint8_t then body
      else Inl (Check_failed ''Unsupported type''))"

datatype UnaryOp_Operator = Logistic | Tanh | Other_unary

definition UnaryOp_execute ::
    "UnaryOp_Operator \<Rightarrow> halide_type_t \<Rightarrow> halide_type_t \<Rightarrow>
     error + 'c list \<Rightarrow> error + 'c list \<Rightarrow> error + 'c list" where
  "UnaryOp_execute op in_type out_type body_logistic body_tanh =
     (if in_type = halide_type_of_uint8_t \<and> out_type = halide_type_of_uint8_t
      then (if op = Logistic then body_logistic
            else if op = Tanh then body_tanh
            else Inl (Check_failed ''Unsupported unary op''))
      else Inr [])"

subsection \<open>Tensors and bounds transforms\<close>

text \<open>
  Modelled from the spec: \<^verbatim>\<open>Tensor\<close> is declared in a header that is not among the sources:
  a strided view with an element type, a rank, per-dimension bounds and a
  \<^verbatim>\<open>QuantizationInfo\<close>. Reading a dimension the tensor does not have is an error.
\<close>

record Tensor =
  type' :: halide_type_t
  buffer :: HalideBuffer
  quantization :: QuantizationInfo

definition rank :: "Tensor \<Rightarrow> nat" where
  "rank t = dimensions (buffer t)"


text \<open>
  Modelled from the spec: \<^verbatim>\<open>BoundsMap\<close> is declared in a header that is not among the sources.
  For every pair of an input and an output dimension it holds a \<open>DimMap\<close>: the requested
  output interval, scaled by \<open>factor\<close> and moved by \<open>bounds\<close>, is what that output
  dimension asks of the input dimension, and the input interval is the sum over the output
  dimensions. A pair that was never declared has factor 0 and bounds \<open>[0, 0]\<close>.
  The rule \<^emph>\<open>elementwise(d_in, d_out, offset)\<close> of the spec (input interval = output
  interval shifted by \<open>offset\<close>) is factor 1 with bounds \<open>[offset, offset]\<close>;
  \<^verbatim>\<open>bounds += offset\<close> shifts both ends of an interval.
\<close>

definition Interval_add :: "Interval \<Rightarrow> Interval \<Rightarrow> Interval" where
  "Interval_add a b = \<lparr>min' = min' a + min' b, max' = max' a + max' b\<rparr>"

definition Interval_shift :: "Interval \<Rightarrow> int \<Rightarrow> Interval" where
  "Interval_shift a offset = \<lparr>min' = min' a + offset, max' = max' a + offset\<rparr>"

definition Interval_scale :: "Interval \<Rightarrow> int \<Rightarrow> Interval" where
  "Interval_scale a k =
     (if 0 \<le> k then \<lparr>min' = min' a * k, max' = max' a * k\<rparr>
      else \<lparr>min' = max' a * k, max' = min' a * k\<rparr>)"

record DimMap =
  factor :: int
  bounds :: Interval







definition DimMap_evaluate :: "DimMap \<Rightarrow> Interval \<Rightarrow> Interval" where
  "DimMap_evaluate dm out = Interval_add (Interval_scale out (factor dm)) (bounds dm)"



subsection \<open>Concatenation\<close>








subsection \<open>Reference notions for the properties\<close>


text \<open>One dimension restricted to the coordinates it shares with another.\<close>

definition common_dim :: "halide_dimension_t \<Rightarrow> halide_dimension_t \<Rightarrow> halide_dimension_t" where
  "common_dim x y =
     x\<lparr>dim_min := max (dim_min x) (dim_min y),
       extent := min (dim_max x) (dim_max y) - max (dim_min x) (dim_min y) + 1\<rparr>"


subsection \<open>Sample operands\<close>








definition sample_large :: HalideBuffer where
  "sample_large =
     \<lparr>host = 0, type_bytes = 1,
      dim = [\<lparr>dim_min = 0, extent = 65536, stride = 1\<rparr>,
             \<lparr>dim_min = 0, extent = 65536, stride = 65536\<rparr>]\<rparr>"


section \<open>Properties\<close>

subsection \<open>The model of frexp\<close>

lemma frexp_exp_range:
  "x \<noteq> 0 \<Longrightarrow> 2 powi (frexp_exp x - 1) \<le> \<bar>x\<bar> \<and> \<bar>x\<bar> < 2 powi frexp_exp x"
proof (induction x rule: frexp_exp.induct)
  case (1 x)
  show ?case
  proof (cases "1 \<le> \<bar>x\<bar>")
    case True
    then have e: "frexp_exp x = frexp_exp (x / 2) + 1"
      using 1 by (subst frexp_exp.simps) simp
    have "2 powi (frexp_exp (x / 2) - 1) \<le> \<bar>x / 2\<bar> \<and> \<bar>x / 2\<bar> < 2 powi frexp_exp (x / 2)"
      using 1 True by simp
    then show ?thesis unfolding e by (simp add: power_int_add power_int_diff)
  next
    case False
    note nge = False
    show ?thesis
    proof (cases "\<bar>x\<bar> < 1 / 2")
      case True
      then have e: "frexp_exp x = frexp_exp (x * 2) - 1"
        using 1 nge by (subst frexp_exp.simps) simp
      have "2 powi (frexp_exp (x * 2) - 1) \<le> \<bar>x * 2\<bar> \<and> \<bar>x * 2\<bar> < 2 powi frexp_exp (x * 2)"
        using 1 True nge by simp
      then show ?thesis unfolding e by (simp add: power_int_add power_int_diff abs_mult)
    next
      case False
      then have e: "frexp_exp x = 0" using 1 nge by (subst frexp_exp.simps) simp
      show ?thesis unfolding e using False nge by (simp add: power_int_diff)
    qed
  qed
qed

text \<open>The defining property of \<^verbatim>\<open>std::frexp\<close>: a mantissa in \<open>[1/2, 1)\<close> and an exact product.\<close>

lemma frexp_correct:
  assumes "x \<noteq> 0"
  shows "fst (frexp x) * 2 powi snd (frexp x) = x"
    and "1 / 2 \<le> \<bar>fst (frexp x)\<bar>"
    and "\<bar>fst (frexp x)\<bar> < 1"
proof -
  have p: "(0::real) < 2 powi frexp_exp x" by simp
  show "fst (frexp x) * 2 powi snd (frexp x) = x" by (simp add: frexp_def)
  have r: "2 powi (frexp_exp x - 1) \<le> \<bar>x\<bar>" "\<bar>x\<bar> < 2 powi frexp_exp x"
    using frexp_exp_range [OF assms] by simp_all
  have a: "\<bar>fst (frexp x)\<bar> = \<bar>x\<bar> / 2 powi frexp_exp x" by (simp add: frexp_def)
  show "\<bar>fst (frexp x)\<bar> < 1" unfolding a using r(2) p by (simp add: field_simps)
  have "2 powi frexp_exp x / 2 \<le> \<bar>x\<bar>" using r(1) by (simp add: power_int_diff)
  then show "1 / 2 \<le> \<bar>fst (frexp x)\<bar>" unfolding a using p by (simp add: field_simps)
qed

subsection \<open>Fixed-point conversion of one half\<close>

lemma frexp_half: "frexp (1 / 2) = (1 / 2, 0)"
  by (simp add: frexp_def frexp_exp.simps)

text \<open>
  C4, as stated: with 32 bits of precision \<^verbatim>\<open>get_quantized_mul_and_shift(0.5)\<close> yields the
  multiplier \<open>2^30\<close> with the shift \<open>-1\<close>. The code does not return that pair.
\<close>

theorem get_quantized_mul_and_shift_half_not_shift_minus_one:
  "get_quantized_mul_and_shift (1 / 2) 32 \<noteq> Inr \<lparr>multiplier = 2 ^ 30, shift = - 1\<rparr>"
  by (simp add: get_quantized_mul_and_shift_def frexp_half cround_def
      INT32_MAX_def int32_wrap_def)

text \<open>
  C4, amended: with 32 bits of precision \<^verbatim>\<open>get_quantized_mul_and_shift(0.5)\<close> yields the
  multiplier \<open>2^30\<close> with the shift \<open>0\<close>: \<^verbatim>\<open>frexp\<close> leaves one half as its own mantissa. The
  pair denotes one half exactly, the multiplier being a fraction of \<open>2^31\<close>:
  \<open>multiplier * 2^(shift - 31) = 1/2\<close>.
\<close>

theorem get_quantized_mul_and_shift_half:
  "get_quantized_mul_and_shift (1 / 2) 32 = Inr \<lparr>multiplier = 2 ^ 30, shift = 0\<rparr> \<and>
   real_of_int (2 ^ 30) * 2 powi (0 - 31) = 1 / 2"
  by (simp add: get_quantized_mul_and_shift_def frexp_half cround_def
      INT32_MAX_def int32_wrap_def power_int_minus)

subsection \<open>Multipliers just below one\<close>

lemma frexp_near_one:
  "frexp (9007199254740991 / 9007199254740992) = (9007199254740991 / 9007199254740992, 0)"
  by (simp add: frexp_def frexp_exp.simps)

lemma get_quantized_mul_and_shift_near_one:
  "get_quantized_mul_and_shift (1 - 1 / 2 ^ 53) 32 = Inr \<lparr>multiplier = 2 ^ 30, shift = 1\<rparr>"
  by (simp add: get_quantized_mul_and_shift_def frexp_near_one cround_def floor_eq_iff
      INT32_MAX_def int32_wrap_def)

lemma is_double_near_one: "is_double (1 - 1 / 2 ^ 53)"
  unfolding is_double_def
  by (rule exI [of _ "2 ^ 53 - 1"], rule exI [of _ "- 53"]) (simp add: power_int_minus field_simps)

lemma frexp_near_one_float:
  "frexp (16777215 / 16777216) = (16777215 / 16777216, 0)"
  by (simp add: frexp_def frexp_exp.simps)

lemma get_quantized_mul_and_shift_near_one_16:
  "get_quantized_mul_and_shift (1 - 1 / 2 ^ 24) 16 = Inr \<lparr>multiplier = 2 ^ 14, shift = 1\<rparr>"
  by (simp add: get_quantized_mul_and_shift_def frexp_near_one_float cround_def floor_eq_iff
      INT32_MAX_def int32_wrap_def)

lemma is_double_near_one_float: "is_double (1 - 1 / 2 ^ 24)"
  unfolding is_double_def
  by (rule exI [of _ "2 ^ 24 - 1"], rule exI [of _ "- 24"]) (simp add: power_int_minus field_simps)

text \<open>
  C5: for every double \<open>m\<close> with \<open>0 \<le> m < 1\<close> the shift returned is non-positive and the
  assertion \<^verbatim>\<open>result.shift <= 0\<close> never fires. The code breaks its own assertion at the
  largest double below one, \<open>m = 1 - 2^-53\<close>, with 32 bits: the mantissa rounds up to
  \<open>2^31\<close>, is halved, and the shift becomes \<open>1\<close>. With 16 bits, the precision of the softmax
  and unary operators, the same happens already at \<open>m = 1 - 2^-24\<close>, the largest
  single-precision value below one.
\<close>

theorem smaller_than_one_assertion_fires_near_one:
  "is_double (1 - 1 / 2 ^ 53) \<and> (0::real) \<le> 1 - 1 / 2 ^ 53 \<and> (1 - 1 / 2 ^ 53 :: real) < 1 \<and>
   get_quantized_mul_and_shift_smaller_than_one (1 - 1 / 2 ^ 53) 32 =
     Inl (Assert_failed ''result.shift <= 0'') \<and>
   is_double (1 - 1 / 2 ^ 24) \<and> (0::real) \<le> 1 - 1 / 2 ^ 24 \<and> (1 - 1 / 2 ^ 24 :: real) < 1 \<and>
   get_quantized_mul_and_shift_smaller_than_one (1 - 1 / 2 ^ 24) 16 =
     Inl (Assert_failed ''result.shift <= 0'')"
proof -
  have a: "get_quantized_mul_and_shift_smaller_than_one (1 - 1 / 2 ^ 53) 32 =
          Inl (Assert_failed ''result.shift <= 0'')"
    unfolding get_quantized_mul_and_shift_smaller_than_one_def
      get_quantized_mul_and_shift_near_one
    by simp
  have b: "get_quantized_mul_and_shift_smaller_than_one (1 - 1 / 2 ^ 24) 16 =
          Inl (Assert_failed ''result.shift <= 0'')"
    unfolding get_quantized_mul_and_shift_smaller_than_one_def
      get_quantized_mul_and_shift_near_one_16
    by simp
  show ?thesis using a b is_double_near_one is_double_near_one_float by simp
qed

subsection \<open>The ReLU6 clamp interval\<close>

text \<open>
  C6, as stated: for every zero-point \<open>z\<close> in \<open>[0, 255]\<close> and every positive scale \<open>s\<close> the
  result is \<open>[max z 0, min (z + round (6/s)) 255]\<close>. At \<open>z = 0\<close> and \<open>s = 2^-30\<close> the quotient
  \<open>6 * 2^30\<close> is a double (so the division is exact) and does not fit a 32-bit \<^verbatim>\<open>int\<close>:
  the cast has no defined value and the code does not return \<open>[0, 255]\<close>.
\<close>

theorem relu6_min_max_tiny_scale:
  "get_quantized_min_max (/) Relu6 0 (1 / 2 ^ 30) \<noteq>
     Inr \<lparr>min' = max 0 0, max' = min (0 + cround (6 / (1 / 2 ^ 30))) 255\<rparr>"
  by (simp add: get_quantized_min_max_def double_to_int_def cround_def INT32_MIN_def INT32_MAX_def)

text \<open>
  C6, amended: for every zero-point \<open>z\<close> in \<open>[0, 255]\<close> and every positive scale \<open>s\<close> for
  which \<open>round (6/s)\<close> and \<open>z + round (6/s)\<close> are representable as 32-bit integers,
  \<^verbatim>\<open>get_quantized_min_max(Relu6, z, s)\<close> returns \<open>min = max z 0\<close> and
  \<open>max = min (z + round (6/s)) 255\<close>. It holds whatever the rounding of the double division.
\<close>

theorem relu6_min_max:
  assumes "0 \<le> z" "z \<le> 255" "0 < s"
    and "INT32_MIN \<le> cround (fdiv 6 s)" "z + cround (fdiv 6 s) \<le> INT32_MAX"
  shows "get_quantized_min_max fdiv Relu6 z s =
           Inr \<lparr>min' = max z 0, max' = min (z + cround (fdiv 6 s)) 255\<rparr>"
proof -
  let ?r = "cround (fdiv 6 s)"
  have c: "double_to_int ?r = Inr ?r"
    using assms by (simp add: double_to_int_def)
  have lo: "- 2147483648 \<le> z + ?r" using assms by (simp add: INT32_MIN_def)
  have hi: "z + ?r < 2147483648" using assms by (simp add: INT32_MAX_def)
  have "(z + ?r + 2147483648) mod 4294967296 = z + ?r + 2147483648"
    using lo hi by (intro mod_pos_pos_trivial) simp_all
  then have w: "int32_wrap (z + ?r) = z + ?r" by (simp add: int32_wrap_def)
  show ?thesis by (simp add: get_quantized_min_max_def c w)
qed

theorem relu6_min_max_witness:
  "(0::int) \<le> 10 \<and> (10::int) \<le> 255 \<and> (0::real) < 1 / 10 \<and>
   INT32_MIN \<le> cround (6 / (1 / 10)) \<and> 10 + cround (6 / (1 / 10)) \<le> INT32_MAX \<and>
   get_quantized_min_max (/) Relu6 10 (1 / 10) = Inr \<lparr>min' = 10, max' = 70\<rparr>"
  using relu6_min_max [of 10 "1 / 10" "(/)"]
  by (simp add: cround_def INT32_MIN_def INT32_MAX_def)

subsection \<open>Requantize\<close>

lemma is_alias_overlap:
  assumes "begin' a < end' a" "begin' b < end' b"
  shows "is_alias a b \<longleftrightarrow> {begin' a..<end' a} \<inter> {begin' b..<end' b} \<noteq> {}"
proof
  assume al: "is_alias a b"
  then have "max (begin' a) (begin' b) \<in> {begin' a..<end' a} \<inter> {begin' b..<end' b}"
    using assms by (auto simp: is_alias_def)
  then show "{begin' a..<end' a} \<inter> {begin' b..<end' b} \<noteq> {}" by blast
next
  assume "{begin' a..<end' a} \<inter> {begin' b..<end' b} \<noteq> {}"
  then obtain x where "x \<in> {begin' a..<end' a}" "x \<in> {begin' b..<end' b}" by blast
  then show "is_alias a b" by (auto simp: is_alias_def)
qed

text \<open>
  C3: \<^verbatim>\<open>requantize(in, inq, out, outq)\<close> is a plain copy (\<^verbatim>\<open>out.copy_from(in)\<close> and nothing
  else) if and only if the two \<^verbatim>\<open>QuantizationInfo\<close> are equal and the views are not aliased;
  with equal \<^verbatim>\<open>QuantizationInfo\<close> and aliased views it makes no call at all, so the output
  bytes stay as they are; otherwise it rescales through \<^verbatim>\<open>add\<close>.
\<close>

theorem requantize_paths:
  "(requantize in' inq out outq = [Copy_from out in'] \<longleftrightarrow> inq = outq \<and> \<not> is_alias in' out) \<and>
   (inq = outq \<and> is_alias in' out \<longrightarrow> requantize in' inq out outq = []) \<and>
   (inq \<noteq> outq \<longrightarrow>
      requantize in' inq out outq = [Add in' inq in' inq 0 out outq None_activation])"
  by (simp add: requantize_def)

theorem requantize_paths_witness:
  "requantize
     \<lparr>host = 0, type_bytes = 1, dim = [\<lparr>dim_min = 0, extent = 4, stride = 1\<rparr>]\<rparr>
     \<lparr>scale = [1 / 2], zero = [128]\<rparr>
     \<lparr>host = 16, type_bytes = 1, dim = [\<lparr>dim_min = 0, extent = 4, stride = 1\<rparr>]\<rparr>
     \<lparr>scale = [1 / 2], zero = [128]\<rparr>
   = [Copy_from
        \<lparr>host = 16, type_bytes = 1, dim = [\<lparr>dim_min = 0, extent = 4, stride = 1\<rparr>]\<rparr>
        \<lparr>host = 0, type_bytes = 1, dim = [\<lparr>dim_min = 0, extent = 4, stride = 1\<rparr>]\<rparr>] \<and>
   requantize
     \<lparr>host = 0, type_bytes = 1, dim = [\<lparr>dim_min = 0, extent = 4, stride = 1\<rparr>]\<rparr>
     \<lparr>scale = [1 / 2], zero = [128]\<rparr>
     \<lparr>host = 2, type_bytes = 1, dim = [\<lparr>dim_min = 0, extent = 4, stride = 1\<rparr>]\<rparr>
     \<lparr>scale = [1 / 2], zero = [128]\<rparr>
   = [] \<and>
   requantize
     \<lparr>host = 0, type_bytes = 1, dim = [\<lparr>dim_min = 0, extent = 4, stride = 1\<rparr>]\<rparr>
     \<lparr>scale = [1 / 2], zero = [128]\<rparr>
     \<lparr>host = 16, type_bytes = 1, dim = [\<lparr>dim_min = 0, extent = 4, stride = 1\<rparr>]\<rparr>
     \<lparr>scale = [1 / 4], zero = [0]\<rparr>
   = [Add \<lparr>host = 0, type_bytes = 1, dim = [\<lparr>dim_min = 0, extent = 4, stride = 1\<rparr>]\<rparr>
          \<lparr>scale = [1 / 2], zero = [128]\<rparr>
          \<lparr>host = 0, type_bytes = 1, dim = [\<lparr>dim_min = 0, extent = 4, stride = 1\<rparr>]\<rparr>
          \<lparr>scale = [1 / 2], zero = [128]\<rparr>
          0
          \<lparr>host = 16, type_bytes = 1, dim = [\<lparr>dim_min = 0, extent = 4, stride = 1\<rparr>]\<rparr>
          \<lparr>scale = [1 / 4], zero = [0]\<rparr>
          None_activation]"
  using
    requantize_paths
      [of "\<lparr>host = 0, type_bytes = 1, dim = [\<lparr>dim_min = 0, extent = 4, stride = 1\<rparr>]\<rparr>"
          "\<lparr>scale = [1 / 2], zero = [128]\<rparr>"
          "\<lparr>host = 16, type_bytes = 1, dim = [\<lparr>dim_min = 0, extent = 4, stride = 1\<rparr>]\<rparr>"
          "\<lparr>scale = [1 / 2], zero = [128]\<rparr>"]
    requantize_paths
      [of "\<lparr>host = 0, type_bytes = 1, dim = [\<lparr>dim_min = 0, extent = 4, stride = 1\<rparr>]\<rparr>"
          "\<lparr>scale = [1 / 2], zero = [128]\<rparr>"
          "\<lparr>host = 2, type_bytes = 1, dim = [\<lparr>dim_min = 0, extent = 4, stride = 1\<rparr>]\<rparr>"
          "\<lparr>scale = [1 / 2], zero = [128]\<rparr>"]
    requantize_paths
      [of "\<lparr>host = 0, type_bytes = 1, dim = [\<lparr>dim_min = 0, extent = 4, stride = 1\<rparr>]\<rparr>"
          "\<lparr>scale = [1 / 2], zero = [128]\<rparr>"
          "\<lparr>host = 16, type_bytes = 1, dim = [\<lparr>dim_min = 0, extent = 4, stride = 1\<rparr>]\<rparr>"
          "\<lparr>scale = [1 / 4], zero = [0]\<rparr>"]
  by (simp add: is_alias_def begin'_def end'_def)

subsection \<open>Unsupported element types\<close>

lemma unsupported_type_aborts:
  assumes "t \<noteq> halide_type_of_uint8_t"
  shows "BinaryOp_execute t t2 t3 body = Inl (Check_failed ''Unsupported type'')"
    and "Conv2DOp_execute t t2 body = Inl (Check_failed ''Unsupported type'')"
    and "DepthwiseConv2DOp_execute t t2 t3 body = Inl (Check_failed ''Unsupported type'')"
    and "FullyConnectedOp_execute t t2 t3 body = Inl (Check_failed ''Unsupported type'')"
    and "L2NormalizationOp_execute t t2 body = Inl (Check_failed ''Unsupported type'')"
    and "PoolOp_execute t t2 body = Inl (Check_failed ''Unsupported type'')"
    and "SoftmaxOp_execute t t2 body = Inl (Check_failed ''Unsupported type'')"
    and "TileConvFilterOp_execute t body = Inl (Check_failed ''Unsupported type'')"
  using assms
  by (simp_all add: BinaryOp_execute_def Conv2DOp_execute_def DepthwiseConv2DOp_execute_def
      FullyConnectedOp_execute_def L2NormalizationOp_execute_def PoolOp_execute_def
      SoftmaxOp_execute_def TileConvFilterOp_execute_def)

lemma PadOp_unsupported_type_aborts:
  "bytes t \<noteq> 1 \<Longrightarrow> PadOp_execute t body = Inl (Check_failed ''Unsupported type'')"
  by (simp add: PadOp_execute_def)

text \<open>
  C2: an element type outside the supported set makes \<^verbatim>\<open>execute\<close> abort, for every operator
  kind, \<^verbatim>\<open>ReductionOp\<close> and \<^verbatim>\<open>UnaryOp\<close> included. The code of these two has no \<^verbatim>\<open>else\<close>
  branch: with a 32-bit signed input tensor both return normally without calling a kernel.
\<close>

theorem ReductionOp_UnaryOp_execute_unsupported_type_returns:
  "ReductionOp_execute rop halide_type_of_int32_t halide_type_of_uint8_t body = Inr [] \<and>
   UnaryOp_execute uop halide_type_of_int32_t halide_type_of_uint8_t body_logistic body_tanh =
     Inr []"
  by (simp add: ReductionOp_execute_def UnaryOp_execute_def
      halide_type_of_int32_t_def halide_type_of_uint8_t_def)

subsection \<open>Broadcasting\<close>

text \<open>
  C8: \<^verbatim>\<open>broadcast_shapes\<close> is fatal only where the extents differ and neither is 1, and
  leaves dimensions of equal extent as they are. The code reaches \<^verbatim>\<open>LOG(FATAL)\<close> for two
  views of the same shape \<open>[2, 1, 1, 1]\<close>: in dimension 0 neither extent is 1, and the
  case of equal extents is not tested.
\<close>

theorem broadcast_shapes_equal_extents_fatal:
  "broadcast_shapes
     \<lparr>host = 0, type_bytes = 1,
      dim = [\<lparr>dim_min = 0, extent = 2, stride = 1\<rparr>, \<lparr>dim_min = 0, extent = 1, stride = 2\<rparr>,
             \<lparr>dim_min = 0, extent = 1, stride = 2\<rparr>, \<lparr>dim_min = 0, extent = 1, stride = 2\<rparr>]\<rparr>
     \<lparr>host = 100, type_bytes = 1,
      dim = [\<lparr>dim_min = 0, extent = 2, stride = 1\<rparr>, \<lparr>dim_min = 0, extent = 1, stride = 2\<rparr>,
             \<lparr>dim_min = 0, extent = 1, stride = 2\<rparr>, \<lparr>dim_min = 0, extent = 1, stride = 2\<rparr>]\<rparr>
     4
   = Inl (Log_fatal ''Can't broadcast shapes'')"
  by (simp add: broadcast_shapes_def pad_to_rank.simps dimensions_def broadcast_loop.simps)

subsection \<open>Dimension fusion\<close>

lemma fuse_shift_eq:
  "d < length ds \<Longrightarrow> fuse_shift ds d = take d ds @ drop (Suc d) ds @ [last ds]"
proof (induction ds d rule: fuse_shift.induct)
  case (1 ds d)
  show ?case
  proof (cases "d + 1 < length ds")
    case True
    let ?ds' = "ds[d := ds ! (d + 1)]"
    have e: "fuse_shift ds d = fuse_shift ?ds' (d + 1)"
      using True by (subst fuse_shift.simps) simp
    have ih: "fuse_shift ?ds' (d + 1) = take (d + 1) ?ds' @ drop (Suc (d + 1)) ?ds' @ [last ?ds']"
      using 1 True by simp
    have t: "take (d + 1) ?ds' = take d ds @ [ds ! (d + 1)]"
      using True by (simp add: take_Suc_conv_app_nth)
    have dr: "drop (Suc (d + 1)) ?ds' = drop (Suc (d + 1)) ds" by simp
    have ne: "ds \<noteq> []" using True by auto
    have l: "last ?ds' = last ds" using True ne by (simp add: last_list_update)
    have c: "drop (Suc d) ds = ds ! (d + 1) # drop (Suc (d + 1)) ds"
      using True by (simp add: Cons_nth_drop_Suc)
    show ?thesis unfolding e ih t dr l c by simp
  next
    case False
    then have d: "d = length ds - 1" using 1(2) by simp
    have ne: "ds \<noteq> []" using 1(2) by auto
    have e: "fuse_shift ds d = ds" using False by (subst fuse_shift.simps) simp
    have "take d ds = butlast ds" unfolding d by (simp add: butlast_conv_take)
    moreover have "drop (Suc d) ds = []" using False by simp
    ultimately show ?thesis unfolding e using ne by simp
  qed
qed

lemma butlast_fuse_shift:
  "d < length ds \<Longrightarrow> butlast (fuse_shift ds d) = take d ds @ drop (Suc d) ds"
  by (simp add: fuse_shift_eq butlast_append)


text \<open>What the code does on every view, the 32-bit products written out.\<close>

lemma can_fuse_wrap:
  "d0 \<noteq> d1 \<Longrightarrow>
   can_fuse buf d0 d1 = Inr True \<longleftrightarrow>
     d0 < dimensions buf \<and> d1 < dimensions buf \<and>
     dim_min (dim buf ! d0) = 0 \<and> 0 < stride (dim buf ! d1) \<and>
     stride (dim buf ! d1) = int32_wrap (extent (dim buf ! d0) * stride (dim buf ! d0))"
  by (simp add: can_fuse_def)

lemma fuse_wrap:
  assumes "d0 < dimensions buf" "d1 < dimensions buf"
  shows "fuse buf d0 d1 =
           Inr (buf\<lparr>dim :=
             (let ds = (dim buf)[d0 := (dim buf ! d0)
                         \<lparr>extent := int32_wrap (extent (dim buf ! d0) * extent (dim buf ! d1))\<rparr>]
              in take d1 ds @ drop (Suc d1) ds)\<rparr>)"
proof -
  let ?ds = "(dim buf)[d0 := (dim buf ! d0)
               \<lparr>extent := int32_wrap (extent (dim buf ! d0) * extent (dim buf ! d1))\<rparr>]"
  have len: "d1 < length ?ds" using assms by (simp add: dimensions_def)
  show ?thesis
    using assms by (simp add: fuse_def Let_def butlast_fuse_shift [OF len])
qed

text \<open>
  A dense view of \<open>65536 * 65536\<close> bytes can be fused, and the fused extent \<open>2^32\<close> wraps
  to 0.
\<close>

lemma fuse_large_wraps:
  "can_fuse sample_large 0 1 = Inr True \<and>
   fuse sample_large 0 1 =
     Inr \<lparr>host = 0, type_bytes = 1, dim = [\<lparr>dim_min = 0, extent = 0, stride = 1\<rparr>]\<rparr>"
  by (simp add: can_fuse_def fuse_wrap dimensions_def sample_large_def int32_wrap_def)

text \<open>The product of \<^verbatim>\<open>can_fuse\<close> wraps as well: \<open>65537 * 65536\<close> is \<open>65536\<close> in 32 bits.\<close>

lemma can_fuse_product_wraps:
  "can_fuse
     \<lparr>host = 0, type_bytes = 1,
      dim = [\<lparr>dim_min = 0, extent = 65537, stride = 65536\<rparr>,
             \<lparr>dim_min = 0, extent = 2, stride = 65536\<rparr>]\<rparr> 0 1 = Inr True"
  by (simp add: can_fuse_def dimensions_def int32_wrap_def)




subsection \<open>Evaluating a bounds transform\<close>

lemma Interval_add_zero [simp]:
  "Interval_add \<lparr>min' = 0, max' = 0\<rparr> a = a" "Interval_add a \<lparr>min' = 0, max' = 0\<rparr> = a"
  by (simp_all add: Interval_add_def)



lemma DimMap_evaluate_zero [simp]:
  "DimMap_evaluate \<lparr>factor = 0, bounds = \<lparr>min' = 0, max' = 0\<rparr>\<rparr> iv = \<lparr>min' = 0, max' = 0\<rparr>"
  by (simp add: DimMap_evaluate_def Interval_scale_def Interval_add_def)

lemma DimMap_evaluate_elementwise [simp]:
  "DimMap_evaluate \<lparr>factor = 1, bounds = \<lparr>min' = off, max' = off\<rparr>\<rparr> iv = Interval_shift iv off"
  by (simp add: DimMap_evaluate_def Interval_scale_def Interval_add_def Interval_shift_def)






subsection \<open>Concatenation: bounds\<close>




subsection \<open>Concatenation: execute\<close>

lemma translate_simps [simp]:
  "dimensions (translate buf d dx) = dimensions buf"
  "d < dimensions buf \<Longrightarrow> extent (dim (translate buf d dx) ! d) = extent (dim buf ! d)"
  by (simp_all add: translate_def dimensions_def)



text \<open>
  What \<^verbatim>\<open>crop_to_union\<close> leaves of the two views: from dimension \<open>d\<close> on, each dimension of
  either view is restricted to the coordinates the two views share.
\<close>

lemma crop_to_union_loop_dims:
  assumes "dimensions a = dimensions b"
  shows "dim (fst (crop_to_union_loop a b d)) =
           map (\<lambda>k. if d \<le> k then common_dim (dim a ! k) (dim b ! k) else dim a ! k)
             [0..<dimensions a] \<and>
         dim (snd (crop_to_union_loop a b d)) =
           map (\<lambda>k. if d \<le> k then common_dim (dim b ! k) (dim a ! k) else dim b ! k)
             [0..<dimensions b]"
  using assms
proof (induction a b d rule: crop_to_union_loop.induct)
  case (1 a b d)
  show ?case
  proof (cases "d < dimensions a")
    case False
    have e: "crop_to_union_loop a b d = (a, b)"
      using False by (subst crop_to_union_loop.simps) simp
    show ?thesis unfolding e using False 1(2)
      by (auto simp: dimensions_def intro!: nth_equalityI)
  next
    case True
    let ?mn = "max (dim_min (dim a ! d)) (dim_min (dim b ! d))"
    let ?mx = "min (dim_max (dim a ! d)) (dim_max (dim b ! d))"
    let ?a' = "crop a d ?mn (?mx - ?mn + 1)"
    let ?b' = "crop b d ?mn (?mx - ?mn + 1)"
    have e: "crop_to_union_loop a b d = crop_to_union_loop ?a' ?b' (d + 1)"
      using True by (subst crop_to_union_loop.simps) (simp add: Let_def)
    have dims: "dimensions ?a' = dimensions a" "dimensions ?b' = dimensions b"
      by (simp_all add: dimensions_def crop_def)
    have ih: "dim (fst (crop_to_union_loop ?a' ?b' (d + 1))) =
           map (\<lambda>k. if d + 1 \<le> k then common_dim (dim ?a' ! k) (dim ?b' ! k) else dim ?a' ! k)
             [0..<dimensions ?a'] \<and>
         dim (snd (crop_to_union_loop ?a' ?b' (d + 1))) =
           map (\<lambda>k. if d + 1 \<le> k then common_dim (dim ?b' ! k) (dim ?a' ! k) else dim ?b' ! k)
             [0..<dimensions ?b']"
      using 1(1) [OF True refl refl] dims 1(2) by simp
    have da: "dim ?a' = (dim a)[d := common_dim (dim a ! d) (dim b ! d)]"
      by (simp add: crop_def common_dim_def)
    have db: "dim ?b' = (dim b)[d := common_dim (dim b ! d) (dim a ! d)]"
      by (simp add: crop_def common_dim_def max.commute min.commute)
    have la: "length (dim a) = dimensions a" "length (dim b) = dimensions a"
      using 1(2) by (simp_all add: dimensions_def)
    have eqd: "x = d" if "\<not> Suc d \<le> x" "d \<le> x" for x
      using that by arith
    have ma: "map (\<lambda>k. if d + 1 \<le> k
                        then common_dim ((dim a)[d := common_dim (dim a ! d) (dim b ! d)] ! k)
                               ((dim b)[d := common_dim (dim b ! d) (dim a ! d)] ! k)
                        else (dim a)[d := common_dim (dim a ! d) (dim b ! d)] ! k)
                [0..<dimensions a] =
              map (\<lambda>k. if d \<le> k then common_dim (dim a ! k) (dim b ! k) else dim a ! k)
                [0..<dimensions a]"
      using True la by (intro map_cong refl) (auto simp: nth_list_update dest: eqd)
    have mb: "map (\<lambda>k. if d + 1 \<le> k
                        then common_dim ((dim b)[d := common_dim (dim b ! d) (dim a ! d)] ! k)
                               ((dim a)[d := common_dim (dim a ! d) (dim b ! d)] ! k)
                        else (dim b)[d := common_dim (dim b ! d) (dim a ! d)] ! k)
                [0..<dimensions a] =
              map (\<lambda>k. if d \<le> k then common_dim (dim b ! k) (dim a ! k) else dim b ! k)
                [0..<dimensions a]"
      using True la by (intro map_cong refl) (auto simp: nth_list_update dest: eqd)
    show ?thesis
      unfolding e
      using ih unfolding dims da db 1(2) [symmetric] ma mb .
  qed
qed



end
